theory Spec2Isabelle
  imports Main "HOL-Library.Sublist"
begin

section \<open>Strings\<close>

text \<open>
  Strings are modelled as lists of characters. The source only handles header values,
  URLs and patterns; \<open>toLowerCase\<close> is modelled on the letters A to Z.
\<close>

definition lower_char :: "char \<Rightarrow> char" where
  "lower_char c =
     (case map_of (zip ''ABCDEFGHIJKLMNOPQRSTUVWXYZ'' ''abcdefghijklmnopqrstuvwxyz'') c of
        None \<Rightarrow> c
      | Some d \<Rightarrow> d)"

definition toLowerCase :: "string \<Rightarrow> string" where
  "toLowerCase s = map lower_char s"

text \<open>
  \<open>s.indexOf(pat, fromIndex)\<close>: the start position is clamped to \<open>0 .. length s\<close>; the
  result is the first position at or after it where \<open>pat\<close> occurs, and \<open>-1\<close> when there
  is none.
\<close>

fun find_from :: "string \<Rightarrow> string \<Rightarrow> nat \<Rightarrow> int" where
  "find_from pat [] k = (if pat = [] then int k else - 1)"
| "find_from pat (c # cs) k =
     (if prefix pat (c # cs) then int k else find_from pat cs (Suc k))"

definition indexOf :: "string \<Rightarrow> string \<Rightarrow> int \<Rightarrow> int" where
  "indexOf s pat fromIndex =
     (let k = nat (min (max fromIndex 0) (int (length s)))
      in find_from pat (drop k s) k)"

definition endsWith :: "string \<Rightarrow> string \<Rightarrow> bool" where
  "endsWith s ext = suffix ext s"

text \<open>
  JavaScript truthiness of a value that is a string, \<open>null\<close> or \<open>undefined\<close>
  (\<open>None\<close>): only a non-empty string is truthy.
\<close>

fun truthy :: "string option \<Rightarrow> bool" where
  "truthy None = False"
| "truthy (Some s) = (s \<noteq> [])"

section \<open>Thrown errors\<close>

text \<open>
  What a JavaScript \<open>throw\<close> can throw, as far as the source can tell the values apart:
  \<^item> \<open>JsError m\<close>: a value whose \<open>message\<close> property reads the string \<open>m\<close>, as every
    \<open>Error\<close> object does;
  \<^item> \<open>ThrownNull\<close> and \<open>ThrownUndefined\<close>: the values \<open>null\<close> and \<open>undefined\<close>, on
    which reading a property throws a \<open>TypeError\<close>;
  \<^item> \<open>ThrownOther\<close>: any other value, whose \<open>message\<close> property reads \<open>undefined\<close>.

  A computation that may throw returns \<open>Inl\<close> of the thrown value or \<open>Inr\<close> of its
  result.
\<close>

datatype js_error = JsError string | ThrownNull | ThrownUndefined | ThrownOther

text \<open>
  The expression \<open>error.message\<close>: the message, \<open>undefined\<close> (\<open>None\<close>), or the
  \<open>TypeError\<close> of reading a property of \<open>null\<close> or \<open>undefined\<close>. The wording of
  that error's message is the runtime's.
\<close>

fun read_message :: "js_error \<Rightarrow> js_error + string option" where
  "read_message (JsError m) = Inr (Some m)"
| "read_message ThrownOther = Inr None"
| "read_message ThrownNull = Inl (JsError ''Cannot read properties of null'')"
| "read_message ThrownUndefined = Inl (JsError ''Cannot read properties of undefined'')"

text \<open>
  \<open>Array.prototype.every\<close> and \<open>some\<close> with a callback that may throw: the elements
  are visited in order, the visit stops at the first element that decides the answer, and
  an error thrown by the callback leaves the loop.
\<close>

fun Array_every :: "('a \<Rightarrow> js_error + bool) \<Rightarrow> 'a list \<Rightarrow> js_error + bool" where
  "Array_every f [] = Inr True"
| "Array_every f (x # xs) =
     (case f x of
        Inl e \<Rightarrow> Inl e
      | Inr b \<Rightarrow> if b then Array_every f xs else Inr False)"

fun Array_some :: "('a \<Rightarrow> js_error + bool) \<Rightarrow> 'a list \<Rightarrow> js_error + bool" where
  "Array_some f [] = Inr False"
| "Array_some f (x # xs) =
     (case f x of
        Inl e \<Rightarrow> Inl e
      | Inr b \<Rightarrow> if b then Inr True else Array_some f xs)"

section \<open>Rule catalog (constants.ts)\<close>

definition CRAWLER_USER_AGENTS :: "string list" where
  "CRAWLER_USER_AGENTS =
     [''googlebot'', ''Google-InspectionTool'', ''Yahoo! Slurp'', ''bingbot'', ''yandex'',
      ''baiduspider'', ''facebookexternalhit'', ''twitterbot'', ''rogerbot'', ''linkedinbot'',
      ''embedly'', ''quora link preview'', ''showyoubot'', ''outbrain'', ''pinterest/0.'',
      ''developers.google.com/+/web/snippet'', ''slackbot'', ''vkShare'', ''W3C_Validator'',
      ''redditbot'', ''Applebot'', ''WhatsApp'', ''flipboard'', ''tumblr'', ''bitlybot'',
      ''SkypeUriPreview'', ''nuzzel'', ''Discordbot'', ''Google Page Speed'', ''Qwantify'',
      ''pinterestbot'', ''Bitrix link preview'', ''XING-contenttabreceiver'',
      ''Chrome-Lighthouse'', ''TelegramBot'', ''SeznamBot'', ''screaming frog SEO spider'',
      ''AhrefsBot'', ''AhrefsSiteAudit'', ''Iframely'']"

definition EXTENSIONS_TO_IGNORE :: "string list" where
  "EXTENSIONS_TO_IGNORE =
     [''.js'', ''.css'', ''.xml'', ''.less'', ''.png'', ''.jpg'', ''.jpeg'', ''.gif'', ''.pdf'',
      ''.doc'', ''.txt'', ''.ico'', ''.rss'', ''.zip'', ''.mp3'', ''.rar'', ''.exe'', ''.wmv'',
      ''.doc'', ''.avi'', ''.ppt'', ''.mpg'', ''.mpeg'', ''.tif'', ''.wav'', ''.mov'', ''.psd'',
      ''.ai'', ''.xls'', ''.mp4'', ''.m4a'', ''.swf'', ''.dat'', ''.dmg'', ''.iso'', ''.flv'',
      ''.m4v'', ''.torrent'', ''.woff'', ''.woff2'', ''.ttf'', ''.svg'', ''.webmanifest'',
      ''.webp'']"

section \<open>Requests\<close>

text \<open>
  \<open>Headers\<close> is the standard header collection: entries of a lower-case name and a
  value, in the order the collection iterates them. \<open>get\<close> throws a \<open>TypeError\<close> for
  a name that is not a header name (a non-empty token), with a message that quotes the
  name, and otherwise looks the name up
  without regard to case, giving \<open>null\<close> (\<open>None\<close>) when it is absent.
\<close>

type_synonym Headers = "(string \<times> string) list"

definition token_chars :: "char list" where
  "token_chars =
     ''abcdefghijklmnopqrstuvwxyzABCDEFGHIJKLMNOPQRSTUVWXYZ0123456789!#$%&*+-.^_`|~'' @ [CHR 0x27]"

definition is_header_name :: "string \<Rightarrow> bool" where
  "is_header_name n = (n \<noteq> [] \<and> list_all (\<lambda>c. c \<in> set token_chars) n)"

definition Headers_get :: "Headers \<Rightarrow> string \<Rightarrow> js_error + string option" where
  "Headers_get hs n =
     (if is_header_name n then Inr (map_of hs (toLowerCase n))
      else Inl (JsError (''Invalid header name: '' @ [CHR 0x22] @ n @ [CHR 0x22])))"

text \<open>
  \<open>URL\<close> as the source reads it: \<open>pathname\<close>, \<open>search\<close>, \<open>searchParams\<close> and
  \<open>href\<close>. The \<open>href\<close> of a URL without credentials is the concatenation of its
  parts; \<open>protocol\<close> ends in a colon, \<open>search\<close> is empty or begins with a question
  mark, \<open>hash\<close> is empty or begins with a number sign. \<open>searchParams\<close> holds the
  decoded name and value pairs of the query, and its \<open>get\<close> returns the first value of
  a name.
\<close>

record URL =
  protocol :: string
  host :: string
  pathname :: string
  search :: string
  hash :: string
  searchParams :: "(string \<times> string) list"

definition href :: "URL \<Rightarrow> string" where
  "href u = protocol u @ ''//'' @ host u @ pathname u @ search u @ hash u"

definition searchParams_get :: "URL \<Rightarrow> string \<Rightarrow> string option" where
  "searchParams_get u n = map_of (searchParams u) n"

text \<open>The request; \<open>req_method\<close> is the field \<open>method\<close>.\<close>

record Request =
  req_method :: string
  url :: URL
  headers :: Headers

section \<open>The platform\<close>

text \<open>
  What the runtime provides is a parameter of the model:
  \<^item> \<open>RegExp_new p\<close> is \<open>new RegExp(p)\<close>: a \<open>SyntaxError\<close> for a malformed pattern,
    otherwise the pattern's \<open>test\<close> function;
  \<^item> \<open>URL_new s\<close> is \<open>new URL(s)\<close>: a \<open>TypeError\<close> for an invalid URL, otherwise the
    parsed URL;
  \<^item> \<open>fetch\<close> is the outbound call: it throws, or gives a response with a status code
    whose \<open>text()\<close> in turn throws or gives the body.
\<close>

type_synonym addr = nat

datatype jsval = JNull | JBool bool | JNum int | JStr string | JRef addr

type_synonym jsobj = "string \<rightharpoonup> jsval"

type_synonym heap = "addr \<rightharpoonup> jsobj"

record Response =
  status :: nat
  response_text :: "js_error + string"

record platform =
  RegExp_new :: "string \<Rightarrow> js_error + (string \<Rightarrow> bool)"
  URL_new :: "string \<Rightarrow> js_error + URL"
  fetch :: "URL \<Rightarrow> jsobj \<times> heap \<Rightarrow> js_error + Response"

section \<open>The Prerenderer class\<close>

text \<open>
  The values of \<open>prerenderServerRequestOptions\<close>: a boolean, a number, a string or an
  object of strings. \<open>ONonFinite\<close> stands for the numbers \<open>NaN\<close> and the infinities,
  which a JSON copy turns into \<open>null\<close>.
\<close>

datatype optval = OBool bool | ONum int | ONonFinite | OStr string | OObj "(string \<times> string) list"

type_synonym PrerenderOptions = "(string \<times> optval) list"

record AfterRenderOptions =
  cancelRender :: bool

record CacheRead =
  cache_body :: string
  cache_error :: "string option"

type_synonym CacheReadFunction = "Request \<Rightarrow> js_error + CacheRead"

type_synonym CacheWriteFunction =
  "Request \<Rightarrow> string option \<Rightarrow> string option \<Rightarrow> js_error + AfterRenderOptions option"

text \<open>
  The fields of the class. The private fields \<open>_resolveCache\<close>, \<open>_writeCache\<close>,
  \<open>_whitelist\<close> and \<open>_blacklist\<close> are written without the underscore; \<open>None\<close> is
  \<open>undefined\<close>.
\<close>

record Prerenderer =
  resolveCache :: "CacheReadFunction option"
  writeCache :: "CacheWriteFunction option"
  whitelist :: "string list option"
  blacklist :: "string list option"
  forwardHeaders :: bool
  prerenderToken :: string
  prerenderServiceUrl :: string
  prerenderServerRequestOptions :: PrerenderOptions

subsection \<open>shouldShowPrerenderedPage\<close>

text \<open>Sequencing of two steps of which the first may throw.\<close>

definition then_do :: "js_error + 'a \<Rightarrow> ('a \<Rightarrow> js_error + 'b) \<Rightarrow> js_error + 'b" where
  "then_do m f = (case m of Inl e \<Rightarrow> Inl e | Inr x \<Rightarrow> f x)"

text \<open>The callback of \<open>this._whitelist.every\<close> (lines 155 to 157).\<close>

definition whitelist_misses :: "platform \<Rightarrow> Request \<Rightarrow> string \<Rightarrow> js_error + bool" where
  "whitelist_misses pf request whitelisted =
     then_do (RegExp_new pf whitelisted) (\<lambda>test.
       Inr (test (href (url request)) = False))"

text \<open>The callback of \<open>this._blacklist.some\<close> (lines 165 to 178).\<close>

definition blacklist_hits :: "platform \<Rightarrow> Request \<Rightarrow> string \<Rightarrow> js_error + bool" where
  "blacklist_hits pf request blacklisted =
     then_do (RegExp_new pf blacklisted) (\<lambda>test.
       let blacklistedUrl = (test (href (url request)) = True)
       in then_do (Headers_get (headers request) ''referer'') (\<lambda>referer.
            let blacklistedReferer =
                  (case referer of
                     None \<Rightarrow> False
                   | Some r \<Rightarrow> if r = [] then False else (test r = True))
            in Inr (blacklistedUrl \<or> blacklistedReferer)))"

definition shouldShowPrerenderedPage :: "platform \<Rightarrow> Prerenderer \<Rightarrow> Request \<Rightarrow> js_error + bool" where
  "shouldShowPrerenderedPage pf this request =
     then_do (Headers_get (headers request) ''user-agent'') (\<lambda>userAgent.
     then_do (Headers_get (headers request) ''x-bufferbot'') (\<lambda>bufferAgent.
       case userAgent of
         None \<Rightarrow> Inr False
       | Some ua \<Rightarrow>
           if ua = [] then Inr False
           else if req_method request \<noteq> ''GET'' \<and> req_method request \<noteq> ''HEAD'' then Inr False
           else
             then_do (Headers_get (headers request) ''x-prerender'') (\<lambda>xPrerender.
               if truthy xPrerender then Inr False
               else
                 let parsedUrl = url request;
                     isRequestingPrerenderedPage =
                       (truthy (searchParams_get parsedUrl ''_escaped_fragment_'')
                        \<or> list_ex (\<lambda>crawlerUserAgent.
                              indexOf (toLowerCase ua) (toLowerCase crawlerUserAgent) 0 \<noteq> - 1)
                             CRAWLER_USER_AGENTS
                        \<or> truthy bufferAgent);
                     parsedPathname = toLowerCase (pathname parsedUrl)
                 in
                   if list_ex (\<lambda>extension. endsWith parsedPathname extension) EXTENSIONS_TO_IGNORE
                   then Inr False
                   else
                     then_do
                       (case whitelist this of
                          None \<Rightarrow> Inr False
                        | Some wl \<Rightarrow> Array_every (whitelist_misses pf request) wl)
                       (\<lambda>notWhitelisted.
                          if notWhitelisted then Inr False
                          else
                            then_do
                              (case blacklist this of
                                 None \<Rightarrow> Inr False
                               | Some bl \<Rightarrow> Array_some (blacklist_hits pf request) bl)
                              (\<lambda>blacklisted.
                                 if blacklisted then Inr False
                                 else Inr isRequestingPrerenderedPage)))))"

text \<open>
  Two parts of the classifier, named for the statements below: whether one of the rules
  before the lists (lines 117 to 150) rejects the request, and the flag
  \<open>isRequestingPrerenderedPage\<close> (lines 124 to 140).
\<close>

definition rejected_before_lists :: "Request \<Rightarrow> bool" where
  "rejected_before_lists request =
     (case map_of (headers request) ''user-agent'' of
        None \<Rightarrow> True
      | Some ua \<Rightarrow>
          ua = []
          \<or> (req_method request \<noteq> ''GET'' \<and> req_method request \<noteq> ''HEAD'')
          \<or> truthy (map_of (headers request) ''x-prerender'')
          \<or> list_ex (\<lambda>extension. endsWith (toLowerCase (pathname (url request))) extension)
               EXTENSIONS_TO_IGNORE)"

definition requests_prerendered_page :: "Request \<Rightarrow> bool" where
  "requests_prerendered_page request =
     (truthy (searchParams_get (url request) ''_escaped_fragment_'')
      \<or> (case map_of (headers request) ''user-agent'' of
            None \<Rightarrow> False
          | Some ua \<Rightarrow>
              list_ex (\<lambda>crawlerUserAgent.
                  indexOf (toLowerCase ua) (toLowerCase crawlerUserAgent) 0 \<noteq> - 1)
                CRAWLER_USER_AGENTS)
      \<or> truthy (map_of (headers request) ''x-bufferbot''))"

subsection \<open>buildApiUrl\<close>

text \<open>A template literal prints \<open>null\<close> as the four letters.\<close>

fun template_string :: "string option \<Rightarrow> string" where
  "template_string None = ''null''"
| "template_string (Some s) = s"

text \<open>
  The setters \<open>url.pathname = ...\<close> and \<open>url.search = ...\<close> receive the path and the
  query of another parsed URL, which they store as they are; the query's parameters follow
  the query.
\<close>

definition buildApiUrl :: "platform \<Rightarrow> Prerenderer \<Rightarrow> Request \<Rightarrow> js_error + string" where
  "buildApiUrl pf this req =
     (let prerenderUrl = prerenderServiceUrl this;
          forwardSlash =
            (if indexOf prerenderUrl ''/'' (int (length prerenderUrl) - 1) \<noteq> - 1 then []
             else ''/'')
      in
        then_do (Headers_get (headers req) ''x-forwarded-host'') (\<lambda>forwardedHost.
        then_do (if truthy forwardedHost then Inr forwardedHost
                 else Headers_get (headers req) ''host'') (\<lambda>hostPort.
        then_do (URL_new pf (''https'' @ ''://'' @ template_string hostPort)) (\<lambda>url0.
          let url1 = url0\<lparr>pathname := pathname (url req)\<rparr>;
              url2 = url1\<lparr>search := search (url req), searchParams := searchParams (url req)\<rparr>;
              fullUrl = href url2
          in Inr (prerenderUrl @ forwardSlash @ fullUrl)))))"

subsection \<open>getPrerenderedPageResponse\<close>

text \<open>
  The function works on objects that it shares by reference, so they live in a store.
  \<open>options\<close> is the only reference to its object and is kept as a value; the objects
  its properties refer to are in the store. The object of the literal \<open>{ headers: {} }\<close>
  gets address 0, and the local constant \<open>headers\<close> holds that address from line 193 on.
\<close>

definition heap_set :: "heap \<Rightarrow> addr \<Rightarrow> string \<Rightarrow> jsval \<Rightarrow> heap" where
  "heap_set hp a k v =
     hp(a \<mapsto> (case hp a of None \<Rightarrow> [k \<mapsto> v] | Some ob \<Rightarrow> ob(k \<mapsto> v)))"

fun js_of :: "string option \<Rightarrow> jsval" where
  "js_of None = JNull"
| "js_of (Some s) = JStr s"

text \<open>An object literal: a later entry of a name replaces an earlier one.\<close>

definition obj_of :: "(string \<times> string) list \<Rightarrow> jsobj" where
  "obj_of entries = foldl (\<lambda>ob (k, s). ob(k \<mapsto> JStr s)) Map.empty entries"

text \<open>
  Lines 195 to 198, \<open>Object.assign(options, JSON.parse(JSON.stringify(...)))\<close>: every
  property of the configured options is copied and assigned to the target in turn. The
  copy of an object value is a new object at a fresh address, and the target's property
  becomes a reference to it.
\<close>

fun Object_assign_copy :: "PrerenderOptions \<Rightarrow> jsobj \<times> heap \<times> addr \<Rightarrow> jsobj \<times> heap \<times> addr" where
  "Object_assign_copy [] st = st"
| "Object_assign_copy ((k, v) # kvs) (target, hp, fresh) =
     (case v of
        OBool b \<Rightarrow> Object_assign_copy kvs (target(k \<mapsto> JBool b), hp, fresh)
      | ONum n \<Rightarrow> Object_assign_copy kvs (target(k \<mapsto> JNum n), hp, fresh)
      | ONonFinite \<Rightarrow> Object_assign_copy kvs (target(k \<mapsto> JNull), hp, fresh)
      | OStr s \<Rightarrow> Object_assign_copy kvs (target(k \<mapsto> JStr s), hp, fresh)
      | OObj entries \<Rightarrow>
          Object_assign_copy kvs
            (target(k \<mapsto> JRef fresh), hp(fresh \<mapsto> obj_of entries), Suc fresh))"

text \<open>
  Lines 201 to 207, \<open>req.headers.forEach(function (h) { ... })\<close>: \<open>forEach\<close> calls its
  callback with the value of an entry as the first argument and the name as the second.
  The callback declares one parameter, \<open>h\<close>, so \<open>h\<close> is the entry's value.
\<close>

fun forward_headers :: "Headers \<Rightarrow> (string \<times> string) list \<Rightarrow> addr \<Rightarrow> heap \<Rightarrow> js_error + heap" where
  "forward_headers hs [] headers_obj hp = Inr hp"
| "forward_headers hs ((name, val) # entries) headers_obj hp =
     (let h = val
      in if h = ''host'' then forward_headers hs entries headers_obj hp
         else
           then_do (Headers_get hs h) (\<lambda>v.
             forward_headers hs entries headers_obj (heap_set hp headers_obj h (js_of v))))"

text \<open>Lines 192 to 213: the options object and the store at the time of the call.\<close>

definition outbound_options :: "Prerenderer \<Rightarrow> Request \<Rightarrow> js_error + jsobj \<times> heap" where
  "outbound_options this req =
     (let headers_obj = 0;
          (options, hp1, fresh) =
             Object_assign_copy (prerenderServerRequestOptions this)
               ([''headers'' \<mapsto> JRef headers_obj], [headers_obj \<mapsto> Map.empty], 1)
      in
        then_do (if forwardHeaders this = True
                 then forward_headers (headers req) (headers req) headers_obj hp1
                 else Inr hp1) (\<lambda>hp2.
        then_do (Headers_get (headers req) ''user-agent'') (\<lambda>userAgent.
          let hp3 = heap_set hp2 headers_obj ''User-Agent'' (js_of userAgent);
              hp4 = heap_set hp3 headers_obj ''Accept-Encoding'' (JStr ''gzip'');
              hp5 = (if prerenderToken this \<noteq> []
                     then heap_set hp4 headers_obj ''X-Prerender-Token''
                            (JStr (prerenderToken this))
                     else hp4)
          in Inr (options, hp5))))"

text \<open>
  Lines 215 to 219: the two arguments of \<open>fetch\<close>. The second is
  \<open>Object.assign({}, options, { method: 'GET' })\<close>, given with the store its references
  point into.
\<close>

definition fetch_arguments :: "platform \<Rightarrow> Prerenderer \<Rightarrow> Request \<Rightarrow> js_error + URL \<times> jsobj \<times> heap" where
  "fetch_arguments pf this req =
     then_do (outbound_options this req) (\<lambda>(options, hp).
     then_do (buildApiUrl pf this req) (\<lambda>apiUrl.
     then_do (URL_new pf apiUrl) (\<lambda>url.
       Inr (url, Map.empty ++ options ++ [''method'' \<mapsto> JStr ''GET''], hp))))"

text \<open>The header object that the call to the rendering backend is given.\<close>

definition outbound_headers :: "jsobj \<times> heap \<Rightarrow> jsobj option" where
  "outbound_headers init =
     (case fst init ''headers'' of
        Some (JRef a) \<Rightarrow> snd init a
      | _ \<Rightarrow> None)"

record RetrievalResult =
  error :: "string option"
  body :: "string option"

text \<open>The body of the \<open>try\<close> block, lines 191 to 221.\<close>

definition try_block :: "platform \<Rightarrow> Prerenderer \<Rightarrow> Request \<Rightarrow> js_error + RetrievalResult" where
  "try_block pf this req =
     then_do (fetch_arguments pf this req) (\<lambda>(url, init).
     then_do (fetch pf url init) (\<lambda>response.
     then_do (response_text response) (\<lambda>text_read.
       Inr \<lparr>error = None, body = Some text_read\<rparr>)))"

text \<open>
  Lines 222 to 226, the \<open>catch\<close> handler: it reads \<open>error.message\<close>, first for the log
  and then for the result, and nothing catches what that reading throws. In the result,
  \<open>None\<close> is \<open>null\<close> or \<open>undefined\<close>.
\<close>

definition getPrerenderedPageResponse :: "platform \<Rightarrow> Prerenderer \<Rightarrow> Request \<Rightarrow> js_error + RetrievalResult" where
  "getPrerenderedPageResponse pf this req =
     (case try_block pf this req of
        Inr result \<Rightarrow> Inr result
      | Inl err \<Rightarrow>
          then_do (read_message err) (\<lambda>msg. Inr \<lparr>error = msg, body = None\<rparr>))"

subsection \<open>prerender\<close>

text \<open>
  How a call of \<open>prerender\<close> ends: with the result of the continuation \<open>next()\<close>, with a
  returned body, or with a thrown error. The calls it makes on the way are recorded in
  order.
\<close>

datatype outcome = Delegates | Returns "string option" | Throws js_error

datatype event =
    CallNext
  | CallResolveCache
  | CallRetriever
  | CallWriteCache "string option" "string option"

text \<open>Lines 93 to 108; \<open>trace\<close> holds the calls made before.\<close>

definition retrieve_and_write :: "platform \<Rightarrow> Prerenderer \<Rightarrow> Request \<Rightarrow> event list \<Rightarrow> event list \<times> outcome" where
  "retrieve_and_write pf this request trace =
     (case getPrerenderedPageResponse pf this request of
        Inl e \<Rightarrow> (trace @ [CallRetriever], Throws e)
      | Inr result \<Rightarrow>
          (let (calls, written) =
                 (case writeCache this of
                    None \<Rightarrow> ([CallRetriever], Inr None)
                  | Some hook \<Rightarrow>
                      ([CallRetriever, CallWriteCache (error result) (body result)],
                       hook request (error result) (body result)))
           in case written of
                Inl e \<Rightarrow> (trace @ calls, Throws e)
              | Inr answer \<Rightarrow>
                  (let cacheOptions =
                         (case answer of
                            None \<Rightarrow> \<lparr>cancelRender = False\<rparr>
                          | Some opts \<Rightarrow> opts)
                   in if cancelRender cacheOptions
                      then (trace @ calls @ [CallNext], Delegates)
                      else
                        (case error result of
                           None \<Rightarrow> (trace @ calls, Returns (body result))
                         | Some msg \<Rightarrow>
                             if msg \<noteq> [] then (trace @ calls, Throws (JsError msg))
                             else (trace @ calls, Returns (body result))))))"

definition prerender :: "platform \<Rightarrow> Prerenderer \<Rightarrow> Request \<Rightarrow> event list \<times> outcome" where
  "prerender pf this request =
     (case shouldShowPrerenderedPage pf this request of
        Inl e \<Rightarrow> ([], Throws e)
      | Inr eligible \<Rightarrow>
          if \<not> eligible then ([CallNext], Delegates)
          else
            (case resolveCache this of
               None \<Rightarrow> retrieve_and_write pf this request []
             | Some hook \<Rightarrow>
                 (case hook request of
                    Inl e \<Rightarrow> ([CallResolveCache], Throws e)
                  | Inr cached \<Rightarrow>
                      if \<not> truthy (cache_error cached) \<and> cache_body cached \<noteq> []
                      then ([CallResolveCache], Returns (Some (cache_body cached)))
                      else retrieve_and_write pf this request [CallResolveCache])))"

subsection \<open>What the backend call is given\<close>

text \<open>The value of one header in the header object given to the backend call.\<close>

definition outbound_header :: "platform \<Rightarrow> Prerenderer \<Rightarrow> Request \<Rightarrow> string \<Rightarrow> js_error + jsval option" where
  "outbound_header pf this req k =
     then_do (fetch_arguments pf this req) (\<lambda>(url, init).
       Inr (case outbound_headers init of None \<Rightarrow> None | Some ob \<Rightarrow> ob k))"

text \<open>The \<open>method\<close> property of the second argument of the backend call.\<close>

definition outbound_method :: "platform \<Rightarrow> Prerenderer \<Rightarrow> Request \<Rightarrow> js_error + jsval option" where
  "outbound_method pf this req =
     then_do (fetch_arguments pf this req) (\<lambda>(target, init, hp). Inr (init ''method''))"

section \<open>A sample platform and sample inputs\<close>

text \<open>
  The instance that the module exports: the field initialisers of lines 26 to 36.
\<close>

definition new_Prerenderer :: Prerenderer where
  "new_Prerenderer =
     \<lparr>resolveCache = None, writeCache = None, whitelist = None, blacklist = None,
      forwardHeaders = False, prerenderToken = [],
      prerenderServiceUrl = ''http://service.prerender.io/'',
      prerenderServerRequestOptions = []\<rparr>"

text \<open>
  Concrete inputs need a concrete platform. The sample platform covers plain inputs only
  and reports an error named after the model for the rest; it is evaluated on plain
  inputs only.
  \<^item> Patterns made of ordinary characters, with an optional \<open>^\<close> in front: the pattern
    matches a string that contains the characters, and with \<open>^\<close> a string that begins
    with them.
  \<^item> URLs \<open>http://host/path?query#hash\<close> and \<open>https://...\<close> written in lower-case
    letters, digits and the punctuation of \<open>plain_url_chars\<close>, with a host of letters,
    digits, dots and hyphens.
\<close>

definition regexp_special :: "char list" where
  "regexp_special = CHR 0x5C # ''^$.*+?()[]{}|''"

definition plain_RegExp_new :: "string \<Rightarrow> js_error + (string \<Rightarrow> bool)" where
  "plain_RegExp_new p =
     (let anchored = (take 1 p = ''^'');
          literal = (if anchored then drop 1 p else p)
      in if list_all (\<lambda>c. c \<notin> set regexp_special) literal
         then Inr (\<lambda>s. if anchored then prefix literal s else sublist literal s)
         else Inl (JsError ''pattern outside the sample platform''))"

definition plain_url_chars :: "char list" where
  "plain_url_chars = ''abcdefghijklmnopqrstuvwxyz0123456789-._~/?#&=:''"

definition plain_host_chars :: "char list" where
  "plain_host_chars = ''abcdefghijklmnopqrstuvwxyz0123456789-.''"

fun split_on :: "char \<Rightarrow> string \<Rightarrow> string list" where
  "split_on c [] = [[]]"
| "split_on c (x # xs) =
     (if x = c then [] # split_on c xs
      else (case split_on c xs of [] \<Rightarrow> [[x]] | w # ws \<Rightarrow> (x # w) # ws))"

definition plain_searchParams :: "string \<Rightarrow> (string \<times> string) list" where
  "plain_searchParams q =
     map (\<lambda>kv. (takeWhile (\<lambda>c. c \<noteq> CHR ''='') kv, drop 1 (dropWhile (\<lambda>c. c \<noteq> CHR ''='') kv)))
       (filter (\<lambda>kv. kv \<noteq> []) (split_on (CHR ''&'') (drop 1 q)))"

definition plain_URL_new :: "string \<Rightarrow> js_error + URL" where
  "plain_URL_new s =
     (let scheme = (if prefix ''https://'' s then ''https:''
                    else if prefix ''http://'' s then ''http:'' else []);
          rest = drop (length scheme + 2) s;
          h = takeWhile (\<lambda>c. c \<notin> set ''/?#'') rest;
          rest1 = dropWhile (\<lambda>c. c \<notin> set ''/?#'') rest;
          p = takeWhile (\<lambda>c. c \<notin> set ''?#'') rest1;
          rest2 = dropWhile (\<lambda>c. c \<notin> set ''?#'') rest1;
          q = takeWhile (\<lambda>c. c \<noteq> CHR ''#'') rest2;
          f = dropWhile (\<lambda>c. c \<noteq> CHR ''#'') rest2
      in if scheme = [] \<or> h = [] then Inl (JsError ''Invalid URL'')
         else if \<not> list_all (\<lambda>c. c \<in> set plain_host_chars) h
                 \<or> \<not> list_all (\<lambda>c. c \<in> set plain_url_chars) rest
         then Inl (JsError ''URL outside the sample platform'')
         else Inr \<lparr>protocol = scheme, host = h,
                   pathname = (if p = [] then ''/'' else p),
                   search = (if q = ''?'' then [] else q),
                   hash = (if f = ''#'' then [] else f),
                   searchParams = plain_searchParams q\<rparr>)"

text \<open>The sample platform whose backend call ends as \<open>answer\<close> says.\<close>

definition sample_platform :: "js_error + Response \<Rightarrow> platform" where
  "sample_platform answer =
     \<lparr>RegExp_new = plain_RegExp_new, URL_new = plain_URL_new, fetch = (\<lambda>url init. answer)\<rparr>"

definition page :: "js_error + Response" where
  "page = Inr \<lparr>status = 200, response_text = Inr ''<html></html>''\<rparr>"

text \<open>
  A \<open>GET\<close> request for \<open>https://host\<close> followed by the path \<open>p\<close> and the query
  \<open>q\<close>, with the headers \<open>hs\<close>; and the same request sent by a crawler, with the
  headers \<open>extra\<close> besides its \<open>user-agent\<close>.
\<close>

definition get_request :: "string \<Rightarrow> string \<Rightarrow> Headers \<Rightarrow> Request" where
  "get_request p q hs =
     \<lparr>req_method = ''GET'',
      url = \<lparr>protocol = ''https:'', host = ''host'', pathname = p, search = q, hash = [],
             searchParams = plain_searchParams q\<rparr>,
      headers = hs\<rparr>"

definition googlebot :: string where
  "googlebot = ''Mozilla/5.0 (compatible; Googlebot/2.1; +http://www.google.com/bot.html)''"

definition crawler_request :: "string \<Rightarrow> string \<Rightarrow> Headers \<Rightarrow> Request" where
  "crawler_request p q extra = get_request p q (extra @ [(''user-agent'', googlebot)])"

text \<open>Cache hooks for the examples.\<close>

definition cancelling_hook :: CacheWriteFunction where
  "cancelling_hook request err content = Inr (Some \<lparr>cancelRender = True\<rparr>)"

definition keeping_hook :: CacheWriteFunction where
  "keeping_hook request err content = Inr (Some \<lparr>cancelRender = False\<rparr>)"

definition cached_page :: CacheReadFunction where
  "cached_page request = Inr \<lparr>cache_body = ''<html>cached</html>'', cache_error = None\<rparr>"

section \<open>Auxiliary facts\<close>

text \<open>\<open>Headers.get\<close> does not throw for the header names the source writes out.\<close>

lemma Headers_get_user_agent:
  "Headers_get hs ''user-agent'' = Inr (map_of hs ''user-agent'')"
  by (simp add: Headers_get_def is_header_name_def token_chars_def toLowerCase_def lower_char_def)

lemma Headers_get_x_bufferbot:
  "Headers_get hs ''x-bufferbot'' = Inr (map_of hs ''x-bufferbot'')"
  by (simp add: Headers_get_def is_header_name_def token_chars_def toLowerCase_def lower_char_def)

lemma Headers_get_x_prerender:
  "Headers_get hs ''x-prerender'' = Inr (map_of hs ''x-prerender'')"
  by (simp add: Headers_get_def is_header_name_def token_chars_def toLowerCase_def lower_char_def)

lemma Headers_get_referer:
  "Headers_get hs ''referer'' = Inr (map_of hs ''referer'')"
  by (simp add: Headers_get_def is_header_name_def token_chars_def toLowerCase_def lower_char_def)

lemma Headers_get_x_forwarded_host:
  "Headers_get hs ''x-forwarded-host'' = Inr (map_of hs ''x-forwarded-host'')"
  by (simp add: Headers_get_def is_header_name_def token_chars_def toLowerCase_def lower_char_def)

lemma Headers_get_host:
  "Headers_get hs ''host'' = Inr (map_of hs ''host'')"
  by (simp add: Headers_get_def is_header_name_def token_chars_def toLowerCase_def lower_char_def)

lemmas Headers_get_literal =
  Headers_get_user_agent Headers_get_x_bufferbot Headers_get_x_prerender
  Headers_get_referer Headers_get_x_forwarded_host Headers_get_host

text \<open>
  \<open>s.indexOf('/', s.length - 1)\<close> finds something exactly when the last character of
  \<open>s\<close> is a slash; for the empty string the start position \<open>-1\<close> is clamped to 0 and
  nothing is found.
\<close>

lemma indexOf_last_slash:
  "(indexOf s ''/'' (int (length s) - 1) \<noteq> - 1) = (s \<noteq> [] \<and> last s = CHR ''/'')"
proof (cases s rule: rev_cases)
  case Nil
  then show ?thesis by (simp add: indexOf_def)
next
  case (snoc ys y)
  then show ?thesis by (auto simp add: indexOf_def Let_def)
qed

text \<open>The classifier in stages: the rules before the lists, the whitelist, the blacklist, the flag.\<close>

lemma shouldShowPrerenderedPage_stages:
  "shouldShowPrerenderedPage pf this request =
     (if rejected_before_lists request then Inr False
      else
        then_do
          (case whitelist this of
             None \<Rightarrow> Inr False
           | Some wl \<Rightarrow> Array_every (whitelist_misses pf request) wl)
          (\<lambda>notWhitelisted.
             if notWhitelisted then Inr False
             else
               then_do
                 (case blacklist this of
                    None \<Rightarrow> Inr False
                  | Some bl \<Rightarrow> Array_some (blacklist_hits pf request) bl)
                 (\<lambda>blacklisted.
                    if blacklisted then Inr False
                    else Inr (requests_prerendered_page request))))"
  unfolding shouldShowPrerenderedPage_def rejected_before_lists_def
    requests_prerendered_page_def then_do_def Let_def Headers_get_literal
  by (simp split: option.splits sum.splits)

lemma crawler_request_passes:
  "rejected_before_lists (crawler_request ''/public/x'' [] [(''host'', ''host'')]) = False"
  "rejected_before_lists (crawler_request ''/private/x'' [] [(''host'', ''host'')]) = False"
  "requests_prerendered_page (crawler_request ''/public/x'' [] [(''host'', ''host'')]) = True"
  "requests_prerendered_page (crawler_request ''/private/x'' [] [(''host'', ''host'')]) = True"
  by code_simp+

lemma crawler_request_href:
  "href (url (crawler_request p q hs)) = ''https://host'' @ p @ q"
  by (simp add: crawler_request_def get_request_def href_def)

text \<open>Where \<open>prerender\<close> calls the retriever, it ends as lines 93 to 108 end.\<close>

lemma prerender_reaches_retrieval:
  "CallRetriever \<in> set (fst (prerender pf this request)) \<Longrightarrow>
   prerender pf this request = retrieve_and_write pf this request []
   \<or> prerender pf this request = retrieve_and_write pf this request [CallResolveCache]"
  by (auto simp add: prerender_def split: sum.splits option.splits if_splits)

lemma retrieve_and_write_calls_retriever:
  "CallRetriever \<in> set (fst (retrieve_and_write pf this request trace))"
  by (auto simp add: retrieve_and_write_def Let_def split: sum.splits option.splits prod.splits)

text \<open>
  \<open>Object.assign\<close> leaves alone a property that the source object does not have, and
  the copies it makes are at fresh addresses.
\<close>

lemma Object_assign_copy_untouched:
  "k \<notin> fst ` set cfg \<Longrightarrow> a < fresh \<Longrightarrow>
   Object_assign_copy cfg (target, hp, fresh) = (target', hp', fresh') \<Longrightarrow>
   target' k = target k \<and> hp' a = hp a"
proof (induction cfg arbitrary: target hp fresh)
  case Nil
  then show ?case by simp
next
  case (Cons kv cfg)
  obtain k' v where kv: "kv = (k', v)" by (cases kv)
  from Cons.prems kv have neq: "k' \<noteq> k" and rest: "k \<notin> fst ` set cfg" by auto
  show ?case
  proof (cases v)
    case (OObj entries)
    with Cons.prems(3) kv
    have "Object_assign_copy cfg
            (target(k' \<mapsto> JRef fresh), hp(fresh \<mapsto> obj_of entries), Suc fresh)
          = (target', hp', fresh')"
      by simp
    from Cons.IH [OF rest _ this] Cons.prems(2) neq show ?thesis by simp
  next
    case (OBool b)
    with Cons.prems(3) kv
    have "Object_assign_copy cfg (target(k' \<mapsto> JBool b), hp, fresh) = (target', hp', fresh')"
      by simp
    from Cons.IH [OF rest Cons.prems(2) this] neq show ?thesis by simp
  next
    case (ONum n)
    with Cons.prems(3) kv
    have "Object_assign_copy cfg (target(k' \<mapsto> JNum n), hp, fresh) = (target', hp', fresh')"
      by simp
    from Cons.IH [OF rest Cons.prems(2) this] neq show ?thesis by simp
  next
    case ONonFinite
    with Cons.prems(3) kv
    have "Object_assign_copy cfg (target(k' \<mapsto> JNull), hp, fresh) = (target', hp', fresh')"
      by simp
    from Cons.IH [OF rest Cons.prems(2) this] neq show ?thesis by simp
  next
    case (OStr s)
    with Cons.prems(3) kv
    have "Object_assign_copy cfg (target(k' \<mapsto> JStr s), hp, fresh) = (target', hp', fresh')"
      by simp
    from Cons.IH [OF rest Cons.prems(2) this] neq show ?thesis by simp
  qed
qed

text \<open>
  When the configured options have no property \<open>headers\<close>, the object that the local
  constant \<open>headers\<close> refers to is the one the call is given, and it holds the three
  headers that are set last.
\<close>

lemma always_set_headers_without_configured_headers:
  assumes "''headers'' \<notin> fst ` set (prerenderServerRequestOptions this)"
    and "fetch_arguments pf this req = Inr (target, init)"
  shows "\<exists>ob. outbound_headers init = Some ob
           \<and> ob ''User-Agent'' = Some (js_of (map_of (headers req) ''user-agent''))
           \<and> ob ''Accept-Encoding'' = Some (JStr ''gzip'')
           \<and> (prerenderToken this \<noteq> [] \<longrightarrow>
                ob ''X-Prerender-Token'' = Some (JStr (prerenderToken this)))"
proof -
  obtain options hp1 fresh where copy:
    "Object_assign_copy (prerenderServerRequestOptions this)
       ([''headers'' \<mapsto> JRef 0], [0 \<mapsto> Map.empty], 1) = (options, hp1, fresh)"
    by (cases "Object_assign_copy (prerenderServerRequestOptions this)
       ([''headers'' \<mapsto> JRef 0], [0 \<mapsto> Map.empty], 1)") auto
  have opts: "options ''headers'' = Some (JRef 0)"
    using Object_assign_copy_untouched [OF assms(1) _ copy, of 0] by simp
  obtain hp where out: "outbound_options this req = Inr (options, hp)"
      and init: "init = (Map.empty ++ options ++ [''method'' \<mapsto> JStr ''GET''], hp)"
    using assms(2) copy
    by (auto simp add: fetch_arguments_def outbound_options_def then_do_def Let_def
        Headers_get_literal split: sum.splits if_splits)
  from out copy obtain hp2 where hp: "hp =
      (let hp3 = heap_set hp2 0 ''User-Agent'' (js_of (map_of (headers req) ''user-agent''));
           hp4 = heap_set hp3 0 ''Accept-Encoding'' (JStr ''gzip'')
       in if prerenderToken this \<noteq> []
          then heap_set hp4 0 ''X-Prerender-Token'' (JStr (prerenderToken this)) else hp4)"
    by (auto simp add: outbound_options_def then_do_def Let_def Headers_get_literal
        split: sum.splits if_splits)
  show ?thesis
    using opts
    by (simp add: init hp outbound_headers_def heap_set_def Let_def split: option.splits)
qed

section \<open>The claims\<close>

subsection \<open>Outbound headers\<close>

text \<open>
  C1. The claim: the header object of the backend call has \<open>User-Agent\<close> equal to the
  request's user-agent, \<open>Accept-Encoding\<close> equal to \<open>gzip\<close> and, with a token
  configured, \<open>X-Prerender-Token\<close> equal to the token, also when the configured extra
  options bring a \<open>headers\<close> object of their own. The code does not do that: line 193
  takes the reference \<open>headers\<close> to the empty object before \<open>Object.assign\<close> replaces
  \<open>options.headers\<close> by the copy of the configured object, so lines 209 to 213 write
  into an object that the call never sees. With the configured options
  \<open>{ headers: { 'User-Agent': 'custom-agent' } }\<close> and the token \<open>secret\<close>, the call
  is given \<open>User-Agent: custom-agent\<close> and neither of the other two headers; without
  configured options the three headers are there.
\<close>

theorem configured_headers_hide_always_set_headers:
  "outbound_header (sample_platform page)
     (new_Prerenderer\<lparr>prerenderToken := ''secret'',
        prerenderServerRequestOptions := [(''headers'', OObj [(''User-Agent'', ''custom-agent'')])]\<rparr>)
     (crawler_request ''/a'' [] [(''host'', ''host'')]) ''User-Agent''
     = Inr (Some (JStr ''custom-agent''))
   \<and> outbound_header (sample_platform page)
     (new_Prerenderer\<lparr>prerenderToken := ''secret'',
        prerenderServerRequestOptions := [(''headers'', OObj [(''User-Agent'', ''custom-agent'')])]\<rparr>)
     (crawler_request ''/a'' [] [(''host'', ''host'')]) ''Accept-Encoding''
     = Inr None
   \<and> outbound_header (sample_platform page)
     (new_Prerenderer\<lparr>prerenderToken := ''secret'',
        prerenderServerRequestOptions := [(''headers'', OObj [(''User-Agent'', ''custom-agent'')])]\<rparr>)
     (crawler_request ''/a'' [] [(''host'', ''host'')]) ''X-Prerender-Token''
     = Inr None
   \<and> outbound_header (sample_platform page) (new_Prerenderer\<lparr>prerenderToken := ''secret''\<rparr>)
     (crawler_request ''/a'' [] [(''host'', ''host'')]) ''User-Agent''
     = Inr (Some (JStr googlebot))
   \<and> outbound_header (sample_platform page) (new_Prerenderer\<lparr>prerenderToken := ''secret''\<rparr>)
     (crawler_request ''/a'' [] [(''host'', ''host'')]) ''Accept-Encoding''
     = Inr (Some (JStr ''gzip''))
   \<and> outbound_header (sample_platform page) (new_Prerenderer\<lparr>prerenderToken := ''secret''\<rparr>)
     (crawler_request ''/a'' [] [(''host'', ''host'')]) ''X-Prerender-Token''
     = Inr (Some (JStr ''secret''))"
  by code_simp

text \<open>
  C2. The claim: with \<open>forwardHeaders\<close> set, the header object of the backend call has,
  for every incoming header other than \<open>host\<close>, an entry under the header's name with
  the header's value. The code does not do that: the callback of \<open>forEach\<close> receives the
  value first, so line 203 compares the value with \<open>host\<close> and line 206 stores under the
  value what \<open>get\<close> finds for the value. For the incoming headers
  \<open>accept-language: en\<close>, \<open>host: host\<close>, \<open>user-agent: googlebot\<close> the call has no
  entry \<open>accept-language\<close> and has the entries \<open>en\<close> and \<open>googlebot\<close>, both
  \<open>null\<close>. For the user-agent that Googlebot sends, which is not a header name, \<open>get\<close>
  throws and the backend is not called.
\<close>

theorem forwardHeaders_stores_under_values:
  "outbound_header (sample_platform page) (new_Prerenderer\<lparr>forwardHeaders := True\<rparr>)
     (get_request ''/a'' []
        [(''accept-language'', ''en''), (''host'', ''host''), (''user-agent'', ''googlebot'')])
     ''accept-language''
     = Inr None
   \<and> outbound_header (sample_platform page) (new_Prerenderer\<lparr>forwardHeaders := True\<rparr>)
     (get_request ''/a'' []
        [(''accept-language'', ''en''), (''host'', ''host''), (''user-agent'', ''googlebot'')])
     ''en''
     = Inr (Some JNull)
   \<and> outbound_header (sample_platform page) (new_Prerenderer\<lparr>forwardHeaders := True\<rparr>)
     (get_request ''/a'' []
        [(''accept-language'', ''en''), (''host'', ''host''), (''user-agent'', ''googlebot'')])
     ''googlebot''
     = Inr (Some JNull)
   \<and> isl (fetch_arguments (sample_platform page) (new_Prerenderer\<lparr>forwardHeaders := True\<rparr>)
        (crawler_request ''/a'' [] [(''accept-language'', ''en''), (''host'', ''host'')]))"
  by code_simp

subsection \<open>The classifier\<close>

text \<open>
  C3 as it is stated: with the whitelist \<open>["^/public/"]\<close>, a crawler's \<open>GET\<close> for the
  path \<open>/public/x\<close> is eligible. It is not: line 156 tests the pattern on
  \<open>request.url.href\<close>, which begins with the scheme.
\<close>

theorem whitelist_public_path_counterexample:
  "shouldShowPrerenderedPage (sample_platform page)
     (new_Prerenderer\<lparr>whitelist := Some [''^/public/'']\<rparr>)
     (crawler_request ''/public/x'' [] [(''host'', ''host'')]) = Inr False"
  by code_simp

lemma crawler_agent_nonempty:
  "list_ex (\<lambda>crawlerUserAgent. indexOf (toLowerCase ua) (toLowerCase crawlerUserAgent) 0 \<noteq> - 1)
     CRAWLER_USER_AGENTS \<Longrightarrow> ua \<noteq> []"
proof
  assume found: "list_ex (\<lambda>crawlerUserAgent.
      indexOf (toLowerCase ua) (toLowerCase crawlerUserAgent) 0 \<noteq> - 1) CRAWLER_USER_AGENTS"
    and "ua = []"
  moreover have "list_ex (\<lambda>crawlerUserAgent.
      indexOf (toLowerCase []) (toLowerCase crawlerUserAgent) 0 \<noteq> - 1) CRAWLER_USER_AGENTS = False"
    by code_simp
  ultimately show False by simp
qed

text \<open>
  C3, amended. Take a whitelist of one pattern \<open>p\<close>, no blacklist, and any \<open>GET\<close>
  request from a crawler user-agent that has no \<open>x-prerender\<close> header and a path that
  does not end in an ignored extension. The request is eligible exactly when \<open>p\<close>
  matches its full URL, the \<open>href\<close>. So with \<open>p = "^/public/"\<close>, which matches
  the strings that begin with \<open>/public/\<close>, no request over \<open>http\<close> or \<open>https\<close> is
  eligible, whatever its path, \<open>/private/x\<close> and \<open>/public/x\<close> included. With
  \<open>p = "^https://host/public/"\<close>, written for the full URL, the request for
  \<open>https://host/public/x\<close> is eligible and the one for \<open>https://host/private/x\<close> is
  not.
\<close>

theorem whitelist_tests_full_url:
  assumes "RegExp_new pf p = Inr t"
    and "whitelist this = Some [p]" and "blacklist this = None"
    and "req_method request = ''GET''"
    and "map_of (headers request) ''user-agent'' = Some ua"
    and "list_ex (\<lambda>crawlerUserAgent.
           indexOf (toLowerCase ua) (toLowerCase crawlerUserAgent) 0 \<noteq> - 1) CRAWLER_USER_AGENTS"
    and "map_of (headers request) ''x-prerender'' = None"
    and "\<not> list_ex (\<lambda>extension. endsWith (toLowerCase (pathname (url request))) extension)
           EXTENSIONS_TO_IGNORE"
  shows "shouldShowPrerenderedPage pf this request = Inr (t (href (url request)))
       \<and> (p = ''^/public/'' \<and> (\<forall>s. t s = prefix ''/public/'' s)
            \<and> (protocol (url request) = ''http:'' \<or> protocol (url request) = ''https:'') \<longrightarrow>
            shouldShowPrerenderedPage pf this request = Inr False)
       \<and> (p = ''^https://host/public/'' \<and> (\<forall>s. t s = prefix ''https://host/public/'' s)
            \<and> protocol (url request) = ''https:'' \<and> host (url request) = ''host''
            \<and> pathname (url request) = ''/public/x'' \<longrightarrow>
            shouldShowPrerenderedPage pf this request = Inr True)
       \<and> (p = ''^https://host/public/'' \<and> (\<forall>s. t s = prefix ''https://host/public/'' s)
            \<and> protocol (url request) = ''https:'' \<and> host (url request) = ''host''
            \<and> pathname (url request) = ''/private/x'' \<longrightarrow>
            shouldShowPrerenderedPage pf this request = Inr False)"
proof -
  have passes: "\<not> rejected_before_lists request"
    using assms(4,5,7,8) crawler_agent_nonempty [OF assms(6)]
    by (simp add: rejected_before_lists_def)
  have wants: "requests_prerendered_page request"
    using assms(5,6) by (simp add: requests_prerendered_page_def)
  have general: "shouldShowPrerenderedPage pf this request = Inr (t (href (url request)))"
    using assms(1-3) passes wants
    by (simp add: shouldShowPrerenderedPage_stages whitelist_misses_def then_do_def)
  show ?thesis
    by (auto simp add: general href_def)
qed

theorem whitelist_tests_full_url_witness:
  "shouldShowPrerenderedPage (sample_platform page)
     (new_Prerenderer\<lparr>whitelist := Some [''^/public/'']\<rparr>)
     (crawler_request ''/private/x'' [] [(''host'', ''host'')]) = Inr False
   \<and> shouldShowPrerenderedPage (sample_platform page)
     (new_Prerenderer\<lparr>whitelist := Some [''^/public/'']\<rparr>)
     (crawler_request ''/public/x'' [] [(''host'', ''host'')]) = Inr False
   \<and> shouldShowPrerenderedPage (sample_platform page)
     (new_Prerenderer\<lparr>whitelist := Some [''^https://host/public/'']\<rparr>)
     (crawler_request ''/public/x'' [] [(''host'', ''host'')]) = Inr True"
proof -
  let ?private = "crawler_request ''/private/x'' [] [(''host'', ''host'')]"
  let ?public = "crawler_request ''/public/x'' [] [(''host'', ''host'')]"
  have r1: "RegExp_new (sample_platform page) ''^/public/'' = Inr (prefix ''/public/'')"
    by (simp add: sample_platform_def plain_RegExp_new_def regexp_special_def)
  have r2: "RegExp_new (sample_platform page) ''^https://host/public/''
              = Inr (prefix ''https://host/public/'')"
    by (simp add: sample_platform_def plain_RegExp_new_def regexp_special_def)
  have get: "req_method ?private = ''GET''" "req_method ?public = ''GET''"
    by (simp_all add: crawler_request_def get_request_def)
  have agent: "map_of (headers ?private) ''user-agent'' = Some googlebot"
    "map_of (headers ?public) ''user-agent'' = Some googlebot"
    by (simp_all add: crawler_request_def get_request_def)
  have crawler: "list_ex (\<lambda>crawlerUserAgent.
      indexOf (toLowerCase googlebot) (toLowerCase crawlerUserAgent) 0 \<noteq> - 1) CRAWLER_USER_AGENTS"
    by code_simp
  have plain: "map_of (headers ?private) ''x-prerender'' = None"
    "map_of (headers ?public) ''x-prerender'' = None"
    by (simp_all add: crawler_request_def get_request_def)
  have page1: "\<not> list_ex (\<lambda>extension. endsWith (toLowerCase (pathname (url ?private))) extension)
      EXTENSIONS_TO_IGNORE"
    by code_simp
  have page2: "\<not> list_ex (\<lambda>extension. endsWith (toLowerCase (pathname (url ?public))) extension)
      EXTENSIONS_TO_IGNORE"
    by code_simp
  have parts: "protocol (url ?private) = ''https:''" "protocol (url ?public) = ''https:''"
    "host (url ?public) = ''host''" "pathname (url ?public) = ''/public/x''"
    by (simp_all add: crawler_request_def get_request_def)
  have a: "shouldShowPrerenderedPage (sample_platform page)
     (new_Prerenderer\<lparr>whitelist := Some [''^/public/'']\<rparr>) ?private = Inr False"
    using whitelist_tests_full_url [OF r1 _ _ get(1) agent(1) crawler plain(1) page1,
        of "new_Prerenderer\<lparr>whitelist := Some [''^/public/'']\<rparr>"] parts
    by (simp add: new_Prerenderer_def crawler_request_href)
  have b: "shouldShowPrerenderedPage (sample_platform page)
     (new_Prerenderer\<lparr>whitelist := Some [''^/public/'']\<rparr>) ?public = Inr False"
    using whitelist_tests_full_url [OF r1 _ _ get(2) agent(2) crawler plain(2) page2,
        of "new_Prerenderer\<lparr>whitelist := Some [''^/public/'']\<rparr>"] parts
    by (simp add: new_Prerenderer_def crawler_request_href)
  have c: "shouldShowPrerenderedPage (sample_platform page)
     (new_Prerenderer\<lparr>whitelist := Some [''^https://host/public/'']\<rparr>) ?public = Inr True"
    using whitelist_tests_full_url [OF r2 _ _ get(2) agent(2) crawler plain(2) page2,
        of "new_Prerenderer\<lparr>whitelist := Some [''^https://host/public/'']\<rparr>"] parts
    by (simp add: new_Prerenderer_def crawler_request_href)
  from a b c show ?thesis by simp
qed

text \<open>
  C8. When the whitelist is the empty array, the classifier answers that the request is
  not eligible, whatever the request, the other settings and the platform are.
\<close>

theorem empty_whitelist_rejects:
  "whitelist this = Some [] \<Longrightarrow> shouldShowPrerenderedPage pf this request = Inr False"
  by (simp add: shouldShowPrerenderedPage_stages then_do_def)

theorem empty_whitelist_rejects_witness:
  "shouldShowPrerenderedPage (sample_platform page) new_Prerenderer
     (crawler_request ''/products/42'' [] [(''host'', ''host'')]) = Inr True
   \<and> shouldShowPrerenderedPage (sample_platform page) (new_Prerenderer\<lparr>whitelist := Some []\<rparr>)
     (crawler_request ''/products/42'' [] [(''host'', ''host'')]) = Inr False"
proof -
  have eligible: "shouldShowPrerenderedPage (sample_platform page) new_Prerenderer
     (crawler_request ''/products/42'' [] [(''host'', ''host'')]) = Inr True"
    by code_simp
  have empty: "whitelist (new_Prerenderer\<lparr>whitelist := Some []\<rparr>) = Some []"
    by simp
  show ?thesis
    using eligible empty_whitelist_rejects [OF empty] by simp
qed

subsection \<open>The backend call\<close>

text \<open>
  C10. Whatever the configured extra options are, the second argument of the backend call
  has the \<open>method\<close> property \<open>GET\<close>: \<open>{ method: 'GET' }\<close> is merged last.
\<close>

theorem outbound_method_is_GET:
  "fetch_arguments pf this req = Inr (target, init, hp) \<Longrightarrow> init ''method'' = Some (JStr ''GET'')"
  by (auto simp add: fetch_arguments_def then_do_def split: sum.splits prod.splits)

theorem outbound_method_is_GET_witness:
  "outbound_method (sample_platform page)
     (new_Prerenderer\<lparr>prerenderServerRequestOptions := [(''method'', OStr ''POST'')]\<rparr>)
     (crawler_request ''/a'' [] [(''host'', ''host'')]) = Inr (Some (JStr ''GET''))"
proof -
  let ?call = "fetch_arguments (sample_platform page)
     (new_Prerenderer\<lparr>prerenderServerRequestOptions := [(''method'', OStr ''POST'')]\<rparr>)
     (crawler_request ''/a'' [] [(''host'', ''host'')])"
  have "\<not> isl ?call"
    by code_simp
  then obtain target init hp where call: "?call = Inr (target, init, hp)"
    by (cases ?call) auto
  from outbound_method_is_GET [OF call] call show ?thesis
    by (simp add: outbound_method_def then_do_def)
qed

text \<open>
  C9. For the service URL \<open>http://svc\<close> and a request with the path \<open>/a\<close>, the query
  \<open>?b=1\<close> and the header \<open>x-forwarded-host: host\<close>, \<open>buildApiUrl\<close> returns
  \<open>http://svc/https://host/a?b=1\<close>; and for every service URL the separating slash is
  left out exactly when the service URL ends in one. The platform's part is what
  \<open>new URL("https://host")\<close> gives: the scheme \<open>https:\<close>, the host \<open>host\<close> and no
  fragment.
\<close>

theorem buildApiUrl_separator:
  assumes "URL_new pf ''https://host'' = Inr u0"
    and "protocol u0 = ''https:''" and "host u0 = ''host''" and "hash u0 = []"
    and "Headers_get (headers req) ''x-forwarded-host'' = Inr (Some ''host'')"
    and "pathname (url req) = ''/a''" and "search (url req) = ''?b=1''"
  shows "buildApiUrl pf (this\<lparr>prerenderServiceUrl := ''http://svc''\<rparr>) req
           = Inr ''http://svc/https://host/a?b=1''
       \<and> (\<forall>base. buildApiUrl pf (this\<lparr>prerenderServiceUrl := base\<rparr>) req
             = Inr (base @ (if base \<noteq> [] \<and> last base = CHR ''/'' then [] else ''/'')
                      @ ''https://host/a?b=1''))"
proof -
  have general: "buildApiUrl pf (this\<lparr>prerenderServiceUrl := base\<rparr>) req
             = Inr (base @ (if base \<noteq> [] \<and> last base = CHR ''/'' then [] else ''/'')
                      @ ''https://host/a?b=1'')" for base
    using assms by (simp add: buildApiUrl_def then_do_def indexOf_last_slash href_def Let_def)
  show ?thesis
    using general [of "''http://svc''"] general by simp
qed

theorem buildApiUrl_separator_witness:
  "buildApiUrl (sample_platform page) (new_Prerenderer\<lparr>prerenderServiceUrl := ''http://svc''\<rparr>)
     (get_request ''/a'' ''?b=1'' [(''x-forwarded-host'', ''host'')])
     = Inr ''http://svc/https://host/a?b=1''
   \<and> buildApiUrl (sample_platform page) (new_Prerenderer\<lparr>prerenderServiceUrl := ''http://svc/''\<rparr>)
     (get_request ''/a'' ''?b=1'' [(''x-forwarded-host'', ''host'')])
     = Inr ''http://svc/https://host/a?b=1''"
proof -
  let ?req = "get_request ''/a'' ''?b=1'' [(''x-forwarded-host'', ''host'')]"
  have parsed: "URL_new (sample_platform page) ''https://host''
      = Inr \<lparr>protocol = ''https:'', host = ''host'', pathname = ''/'', search = [], hash = [],
             searchParams = []\<rparr>"
    by code_simp
  have forwarded: "Headers_get (headers ?req) ''x-forwarded-host'' = Inr (Some ''host'')"
    by code_simp
  have path: "pathname (url ?req) = ''/a''" and query: "search (url ?req) = ''?b=1''"
    by (simp_all add: get_request_def)
  from buildApiUrl_separator [OF parsed _ _ _ forwarded path query, of new_Prerenderer]
  have "buildApiUrl (sample_platform page) (new_Prerenderer\<lparr>prerenderServiceUrl := ''http://svc''\<rparr>)
          ?req = Inr ''http://svc/https://host/a?b=1''"
    and "buildApiUrl (sample_platform page) (new_Prerenderer\<lparr>prerenderServiceUrl := ''http://svc/''\<rparr>)
          ?req = Inr (''http://svc/'' @ [] @ ''https://host/a?b=1'')"
    by simp_all
  then show ?thesis by simp
qed




subsection \<open>The orchestrator\<close>

text \<open>
  C6. For an eligible request and a configured read hook that returns a result: when the
  result has no error and a body that is not empty, \<open>prerender\<close> returns that body, and
  the read hook is the only call it makes, so neither the retriever nor the write hook is
  called; when the result has an error or an empty body, \<open>prerender\<close> goes on with the
  retrieval. An error is what \<open>!error\<close> of line 88 reads as one: a message that is
  present and not empty.
\<close>

theorem cache_hit_short_circuits:
  assumes "shouldShowPrerenderedPage pf this request = Inr True"
    and "resolveCache this = Some hook"
    and "hook request = Inr cached"
  shows "(\<not> truthy (cache_error cached) \<and> cache_body cached \<noteq> [] \<longrightarrow>
            prerender pf this request = ([CallResolveCache], Returns (Some (cache_body cached))))
       \<and> (truthy (cache_error cached) \<or> cache_body cached = [] \<longrightarrow>
            prerender pf this request = retrieve_and_write pf this request [CallResolveCache]
            \<and> CallRetriever \<in> set (fst (prerender pf this request)))"
  using assms retrieve_and_write_calls_retriever [of pf this request "[CallResolveCache]"]
  by (auto simp add: prerender_def)

theorem cache_hit_short_circuits_witness:
  "prerender (sample_platform page) (new_Prerenderer\<lparr>resolveCache := Some cached_page\<rparr>)
     (crawler_request ''/a'' [] [(''host'', ''host'')])
   = ([CallResolveCache], Returns (Some ''<html>cached</html>''))"
proof -
  let ?cfg = "new_Prerenderer\<lparr>resolveCache := Some cached_page\<rparr>"
  let ?req = "crawler_request ''/a'' [] [(''host'', ''host'')]"
  have eligible: "shouldShowPrerenderedPage (sample_platform page) ?cfg ?req = Inr True"
    by code_simp
  have hook: "resolveCache ?cfg = Some cached_page"
    by simp
  have cached: "cached_page ?req
      = Inr \<lparr>cache_body = ''<html>cached</html>'', cache_error = None\<rparr>"
    by (simp add: cached_page_def)
  from cache_hit_short_circuits [OF eligible hook cached] show ?thesis
    by simp
qed

text \<open>
  C4. When \<open>prerender\<close> reaches the retrieval and the write hook returns an answer whose
  \<open>cancelRender\<close> is true, \<open>prerender\<close> ends with the call of the continuation: it
  neither throws nor returns a body, whatever the retrieval's result, an error included.
\<close>

theorem cancelRender_delegates:
  assumes "CallRetriever \<in> set (fst (prerender pf this request))"
    and "getPrerenderedPageResponse pf this request = Inr result"
    and "writeCache this = Some hook"
    and "hook request (error result) (body result) = Inr (Some opts)"
    and "cancelRender opts"
  shows "snd (prerender pf this request) = Delegates
       \<and> CallNext \<in> set (fst (prerender pf this request))"
  using prerender_reaches_retrieval [OF assms(1)] assms(2-5)
  by (auto simp add: retrieve_and_write_def)

theorem cancelRender_delegates_witness:
  "getPrerenderedPageResponse (sample_platform (Inl (JsError ''connection refused'')))
     (new_Prerenderer\<lparr>writeCache := Some cancelling_hook\<rparr>)
     (crawler_request ''/a'' [] [(''host'', ''host'')])
   = Inr \<lparr>error = Some ''connection refused'', body = None\<rparr>
   \<and> snd (prerender (sample_platform (Inl (JsError ''connection refused'')))
        (new_Prerenderer\<lparr>writeCache := Some cancelling_hook\<rparr>)
        (crawler_request ''/a'' [] [(''host'', ''host'')])) = Delegates"
proof -
  let ?pf = "sample_platform (Inl (JsError ''connection refused''))"
  let ?cfg = "new_Prerenderer\<lparr>writeCache := Some cancelling_hook\<rparr>"
  let ?req = "crawler_request ''/a'' [] [(''host'', ''host'')]"
  have reached: "CallRetriever \<in> set (fst (prerender ?pf ?cfg ?req))"
    by code_simp
  have result: "getPrerenderedPageResponse ?pf ?cfg ?req
      = Inr \<lparr>error = Some ''connection refused'', body = None\<rparr>"
    by code_simp
  have hook: "writeCache ?cfg = Some cancelling_hook"
    by simp
  have answer: "cancelling_hook ?req
        (error \<lparr>error = Some ''connection refused'', body = None\<rparr>)
        (body \<lparr>error = Some ''connection refused'', body = None\<rparr>)
      = Inr (Some \<lparr>cancelRender = True\<rparr>)"
    by (simp add: cancelling_hook_def)
  have cancel: "cancelRender \<lparr>cancelRender = True\<rparr>"
    by simp
  from cancelRender_delegates [OF reached result hook answer cancel] result show ?thesis
    by simp
qed

text \<open>
  C5 as it is stated: a retrieval result whose error is not \<open>null\<close> ends, without a
  cancelling write hook, in a thrown failure. Line 105 tests \<open>if (error)\<close>, which the
  empty message fails: when what the backend call throws has the empty message, the result
  is \<open>{ error: "", body: null }\<close> and \<open>prerender\<close> returns the body \<open>null\<close>.
\<close>

theorem empty_error_message_counterexample:
  "getPrerenderedPageResponse (sample_platform (Inl (JsError []))) new_Prerenderer
     (crawler_request ''/a'' [] [(''host'', ''host'')])
   = Inr \<lparr>error = Some [], body = None\<rparr>
   \<and> writeCache new_Prerenderer = None
   \<and> prerender (sample_platform (Inl (JsError []))) new_Prerenderer
       (crawler_request ''/a'' [] [(''host'', ''host'')])
     = ([CallRetriever], Returns None)"
  by code_simp

text \<open>
  C5, amended. When \<open>prerender\<close> reaches the retrieval, the retrieval's result has an
  error message that is not empty, and the write hook is absent, returns nothing or
  returns an answer whose \<open>cancelRender\<close> is false, \<open>prerender\<close> throws an error with
  exactly that message and does not call the continuation.
\<close>

theorem retrieval_error_propagates:
  assumes "CallRetriever \<in> set (fst (prerender pf this request))"
    and "getPrerenderedPageResponse pf this request = Inr result"
    and "error result = Some msg"
    and "msg \<noteq> []"
    and "writeCache this = None
         \<or> (\<exists>hook. writeCache this = Some hook
              \<and> (hook request (error result) (body result) = Inr None
                   \<or> (\<exists>opts. hook request (error result) (body result) = Inr (Some opts)
                          \<and> \<not> cancelRender opts)))"
  shows "snd (prerender pf this request) = Throws (JsError msg)
         \<and> CallNext \<notin> set (fst (prerender pf this request))"
proof -
  have "snd (retrieve_and_write pf this request trace) = Throws (JsError msg)
      \<and> (CallNext \<notin> set trace \<longrightarrow>
           CallNext \<notin> set (fst (retrieve_and_write pf this request trace)))" for trace
    using assms(2-5) by (auto simp add: retrieve_and_write_def)
  from this [of "[]"] this [of "[CallResolveCache]"] prerender_reaches_retrieval [OF assms(1)]
  show ?thesis
    by auto
qed

theorem retrieval_error_propagates_witness:
  "snd (prerender (sample_platform (Inl (JsError ''connection refused'')))
        (new_Prerenderer\<lparr>writeCache := Some keeping_hook\<rparr>)
        (crawler_request ''/a'' [] [(''host'', ''host'')]))
   = Throws (JsError ''connection refused'')"
proof -
  let ?pf = "sample_platform (Inl (JsError ''connection refused''))"
  let ?cfg = "new_Prerenderer\<lparr>writeCache := Some keeping_hook\<rparr>"
  let ?req = "crawler_request ''/a'' [] [(''host'', ''host'')]"
  let ?result = "\<lparr>error = Some ''connection refused'', body = None\<rparr>"
  have reached: "CallRetriever \<in> set (fst (prerender ?pf ?cfg ?req))"
    by code_simp
  have result: "getPrerenderedPageResponse ?pf ?cfg ?req = Inr ?result"
    by code_simp
  have msg: "error ?result = Some ''connection refused''" and nonempty: "''connection refused'' \<noteq> []"
    by simp_all
  have hook: "writeCache ?cfg = None
         \<or> (\<exists>hook. writeCache ?cfg = Some hook
              \<and> (hook ?req (error ?result) (body ?result) = Inr None
                   \<or> (\<exists>opts. hook ?req (error ?result) (body ?result) = Inr (Some opts)
                          \<and> \<not> cancelRender opts)))"
    by (simp add: keeping_hook_def)
  from retrieval_error_propagates [OF reached result msg nonempty hook] show ?thesis
    by simp
qed

end
